theory Spec2Isabelle
  imports Main "HOL-Library.Multiset" "HOL-Library.Product_Lexorder"
begin

section \<open>The bounds store\<close>

text \<open>
  The two scripts query an SQLite file with two tables, \<^verbatim>\<open>word_bounds\<close> and
  \<^verbatim>\<open>glyph_bounds\<close>. A table is a list of rows in the order in which the engine scans
  it; a table may hold the same row twice. The integer columns are integers and
  \<^verbatim>\<open>arabic_word\<close>, \<^verbatim>\<open>line_type\<close> are text; no column is NULL, and the
  parameters that the callers bind are integers (text for the word).
\<close>

record word_bound =
  page_number :: int
  sura_number :: int
  ayah_number :: int
  word_position :: int
  arabic_word :: string
  min_x :: int
  max_x :: int
  min_y :: int
  max_y :: int

record glyph_bound =
  g_page_number :: int
  g_line_number :: int
  g_line_position :: int
  g_line_type :: string
  g_min_x :: int
  g_max_x :: int
  g_min_y :: int
  g_max_y :: int

text \<open>
  What is found at the path \<^verbatim>\<open>quran_word_bounds.sqlite\<close>:
  \<^item> \<open>CannotOpen\<close>: the file can neither be opened nor created; \<^verbatim>\<open>sqlite3.connect\<close>
    raises \<^verbatim>\<open>OperationalError\<close>;
  \<^item> \<open>NoTables\<close>: no file (\<^verbatim>\<open>sqlite3.connect\<close> then starts an empty database) or
    an empty database; the connection opens and every SELECT on the two tables raises
    \<^verbatim>\<open>OperationalError\<close>;
  \<^item> \<open>Corrupt\<close>: a file that is not a database; the connection opens and every
    statement raises \<^verbatim>\<open>DatabaseError\<close>;
  \<^item> \<open>Db ws gs\<close>: a database whose tables hold the rows \<open>ws\<close> and \<open>gs\<close>.
\<close>

datatype store = CannotOpen | NoTables | Corrupt | Db "word_bound list" "glyph_bound list"

datatype db_error = OperationalError | DatabaseError

text \<open>
  The calls that reach the sqlite3 module are logged, so that what a function did with its
  connection can be read off afterwards.
\<close>

datatype db_event = Opened | OpenFailed | Executed | ExecuteFailed | Closed

record world =
  store :: store
  events :: "db_event list"

definition log_event :: "db_event \<Rightarrow> world \<Rightarrow> world" where
  "log_event e w = w\<lparr>events := events w @ [e]\<rparr>"

text \<open>The connections opened and not closed, read from the log.\<close>

definition open_handles :: "db_event list \<Rightarrow> nat" where
  "open_handles es =
     length (filter (\<lambda>e. e = Opened) es) - length (filter (\<lambda>e. e = Closed) es)"

subsection \<open>The sqlite3 calls\<close>

definition sqlite3_connect :: "world \<Rightarrow> (db_error + unit) \<times> world" where
  "sqlite3_connect w =
     (case store w of
        CannotOpen \<Rightarrow> (Inl OperationalError, log_event OpenFailed w)
      | _ \<Rightarrow> (Inr (), log_event Opened w))"

text \<open>
  \<^verbatim>\<open>cursor.execute(select)\<close> followed by \<^verbatim>\<open>cursor.fetchall()\<close> or
  \<^verbatim>\<open>cursor.fetchone()\<close>: what is fetched is a function of the two tables. The scripts
  execute SELECT statements only.
\<close>

definition execute_fetch ::
  "(word_bound list \<Rightarrow> glyph_bound list \<Rightarrow> 'r) \<Rightarrow> world \<Rightarrow> (db_error + 'r) \<times> world" where
  "execute_fetch q w =
     (case store w of
        Db ws gs \<Rightarrow> (Inr (q ws gs), log_event Executed w)
      | Corrupt \<Rightarrow> (Inl DatabaseError, log_event ExecuteFailed w)
      | _ \<Rightarrow> (Inl OperationalError, log_event ExecuteFailed w))"

definition conn_close :: "world \<Rightarrow> world" where
  "conn_close w = log_event Closed w"

section \<open>example\_usage.py\<close>

definition connect_db :: "world \<Rightarrow> (db_error + unit) \<times> world" where
  "connect_db w = sqlite3_connect w"

text \<open>
  Every function of the file has the same frame: \<^verbatim>\<open>conn = connect_db()\<close>,
  \<^verbatim>\<open>cursor.execute(...)\<close>, \<^verbatim>\<open>cursor.fetchall()\<close> (or \<^verbatim>\<open>fetchone\<close>), \<^verbatim>\<open>conn.close()\<close>.
  An exception of \<^verbatim>\<open>connect_db\<close> or of \<^verbatim>\<open>execute\<close> leaves the function at once: the
  \<^verbatim>\<open>conn.close()\<close> below it is not reached. The \<^verbatim>\<open>print\<close> calls that follow the close
  are not modelled.
\<close>

definition run_query ::
  "(word_bound list \<Rightarrow> glyph_bound list \<Rightarrow> 'r) \<Rightarrow> world \<Rightarrow> (db_error + 'r) \<times> world" where
  "run_query q w =
     (case connect_db w of
        (Inl e, w1) \<Rightarrow> (Inl e, w1)
      | (Inr _, w1) \<Rightarrow>
          (case execute_fetch q w1 of
             (Inl e, w2) \<Rightarrow> (Inl e, w2)
           | (Inr rows, w2) \<Rightarrow> (Inr rows, conn_close w2)))"

subsection \<open>highlight\_words\_in\_area\<close>

text \<open>A parameter with a default value: left out by the caller, or passed.\<close>

datatype 'a py_arg = Default | Passed 'a

text \<open>
  The selected columns: \<^verbatim>\<open>arabic_word, min_x, max_x, min_y, max_y, sura_number, ayah_number\<close>.
\<close>

type_synonym area_row = "string \<times> int \<times> int \<times> int \<times> int \<times> int \<times> int"

definition area_row :: "word_bound \<Rightarrow> area_row" where
  "area_row r = (arabic_word r, min_x r, max_x r, min_y r, max_y r, sura_number r, ayah_number r)"

text \<open>
  The SELECT with its five placeholders, bound in order. Rows with equal sort keys keep
  the order of the scan.
\<close>

definition area_select ::
  "int \<times> int \<times> int \<times> int \<times> int \<Rightarrow> word_bound list \<Rightarrow> area_row list" where
  "area_select ps ws =
     (case ps of (p1, p2, p3, p4, p5) \<Rightarrow>
        map area_row
          (sort_key (\<lambda>r. (min_y r, min_x r))
             (filter (\<lambda>r. page_number r = p1
                          \<and> min_x r \<ge> p2 \<and> max_x r \<le> p3
                          \<and> min_y r \<ge> p4 \<and> max_y r \<le> p5) ws)))"

definition highlight_words_in_area ::
  "int \<Rightarrow> int \<Rightarrow> int \<Rightarrow> int \<Rightarrow> int py_arg \<Rightarrow> world \<Rightarrow> (db_error + area_row list) \<times> world" where
  "highlight_words_in_area x1 y1 x2 y2 page_arg w =
     (let page_num = (case page_arg of Default \<Rightarrow> 2 | Passed p \<Rightarrow> p)
      in run_query (\<lambda>ws gs. area_select (page_num, x1, x2, y1, y2) ws) w)"





subsection \<open>get\_ayah\_words\<close>

text \<open>
  The selected columns:
  \<^verbatim>\<open>arabic_word, word_position, min_x, max_x, min_y, max_y, page_number\<close>.
\<close>

type_synonym ayah_row = "string \<times> int \<times> int \<times> int \<times> int \<times> int \<times> int"

definition ayah_row :: "word_bound \<Rightarrow> ayah_row" where
  "ayah_row r =
     (arabic_word r, word_position r, min_x r, max_x r, min_y r, max_y r, page_number r)"

definition ayah_select :: "int \<times> int \<Rightarrow> word_bound list \<Rightarrow> ayah_row list" where
  "ayah_select ps ws =
     (case ps of (p1, p2) \<Rightarrow>
        map ayah_row
          (sort_key word_position
             (filter (\<lambda>r. sura_number r = p1 \<and> ayah_number r = p2) ws)))"

definition get_ayah_words ::
  "int \<Rightarrow> int \<Rightarrow> world \<Rightarrow> (db_error + ayah_row list) \<times> world" where
  "get_ayah_words sura_num ayah_num w =
     run_query (\<lambda>ws gs. ayah_select (sura_num, ayah_num) ws) w"


subsection \<open>find\_word\_occurrences\<close>

text \<open>
  The selected columns:
  \<^verbatim>\<open>page_number, sura_number, ayah_number, word_position, min_x, max_x, min_y, max_y\<close>.
\<close>

type_synonym occurrence_row = "int \<times> int \<times> int \<times> int \<times> int \<times> int \<times> int \<times> int"

definition occurrence_row :: "word_bound \<Rightarrow> occurrence_row" where
  "occurrence_row r =
     (page_number r, sura_number r, ayah_number r, word_position r,
      min_x r, max_x r, min_y r, max_y r)"

definition occurrence_select :: "string \<Rightarrow> word_bound list \<Rightarrow> occurrence_row list" where
  "occurrence_select p1 ws =
     map occurrence_row
       (sort_key (\<lambda>r. (page_number r, sura_number r, ayah_number r, word_position r))
          (filter (\<lambda>r. arabic_word r = p1) ws))"

definition find_word_occurrences ::
  "string \<Rightarrow> world \<Rightarrow> (db_error + occurrence_row list) \<times> world" where
  "find_word_occurrences word w = run_query (\<lambda>ws gs. occurrence_select word ws) w"

definition occurrence_key :: "occurrence_row \<Rightarrow> int \<times> int \<times> int \<times> int" where
  "occurrence_key r = (case r of (pg, s, a, pos, mnx, mxx, mny, mxy) \<Rightarrow> (pg, s, a, pos))"

subsection \<open>get\_page\_layout\<close>

text \<open>
  The selected columns: \<^verbatim>\<open>line_number, line_type, COUNT(*), MIN(min_y), MAX(max_y),
  MIN(min_x), MAX(max_x)\<close>. The groups are built in one pass over the glyphs of the page:
  a glyph either opens the group of its \<^verbatim>\<open>(line_number, line_type)\<close> or is folded into
  the group that is there already.
\<close>

type_synonym line_row = "int \<times> string \<times> int \<times> int \<times> int \<times> int \<times> int"

definition glyph_key :: "glyph_bound \<Rightarrow> int \<times> string" where
  "glyph_key g = (g_line_number g, g_line_type g)"

definition line_key :: "line_row \<Rightarrow> int \<times> string" where
  "line_key r = (case r of (ln, lt, n, y0, y1, x0, x1) \<Rightarrow> (ln, lt))"

definition new_line :: "glyph_bound \<Rightarrow> line_row" where
  "new_line g =
     (g_line_number g, g_line_type g, 1, g_min_y g, g_max_y g, g_min_x g, g_max_x g)"

definition extend_line :: "glyph_bound \<Rightarrow> line_row \<Rightarrow> line_row" where
  "extend_line g r =
     (case r of (ln, lt, n, y0, y1, x0, x1) \<Rightarrow>
        (ln, lt, n + 1, min y0 (g_min_y g), max y1 (g_max_y g),
         min x0 (g_min_x g), max x1 (g_max_x g)))"

fun add_glyph :: "glyph_bound \<Rightarrow> line_row list \<Rightarrow> line_row list" where
  "add_glyph g [] = [new_line g]"
| "add_glyph g (r # rest) =
     (if line_key r = glyph_key g then extend_line g r # rest else r # add_glyph g rest)"

definition group_lines :: "glyph_bound list \<Rightarrow> line_row list" where
  "group_lines gs = fold add_glyph gs []"

definition line_number_of :: "line_row \<Rightarrow> int" where
  "line_number_of r = (case r of (ln, lt, n, y0, y1, x0, x1) \<Rightarrow> ln)"

definition layout_select :: "int \<Rightarrow> glyph_bound list \<Rightarrow> line_row list" where
  "layout_select p1 gs =
     sort_key line_number_of (group_lines (filter (\<lambda>g. g_page_number g = p1) gs))"

definition get_page_layout :: "int \<Rightarrow> world \<Rightarrow> (db_error + line_row list) \<times> world" where
  "get_page_layout page_num w = run_query (\<lambda>ws gs. layout_select page_num gs) w"

subsection \<open>word\_click\_handler\<close>

text \<open>
  The selected columns:
  \<^verbatim>\<open>arabic_word, sura_number, ayah_number, word_position, min_x, max_x, min_y, max_y\<close>.
  The SELECT has no ORDER BY: the rows come in the order of the scan, and
  \<^verbatim>\<open>fetchone\<close> takes the first of them.
\<close>

type_synonym click_row = "string \<times> int \<times> int \<times> int \<times> int \<times> int \<times> int \<times> int"

definition click_row :: "word_bound \<Rightarrow> click_row" where
  "click_row r =
     (arabic_word r, sura_number r, ayah_number r, word_position r,
      min_x r, max_x r, min_y r, max_y r)"

definition click_select ::
  "int \<times> int \<times> int \<times> int \<times> int \<Rightarrow> word_bound list \<Rightarrow> click_row list" where
  "click_select ps ws =
     (case ps of (p1, p2, p3, p4, p5) \<Rightarrow>
        map click_row
          (filter (\<lambda>r. page_number r = p1
                       \<and> p2 \<ge> min_x r \<and> p3 \<le> max_x r
                       \<and> p4 \<ge> min_y r \<and> p5 \<le> max_y r) ws))"

definition fetchone :: "'r list \<Rightarrow> 'r option" where
  "fetchone rows = (case rows of [] \<Rightarrow> None | r # _ \<Rightarrow> Some r)"

definition word_click_handler ::
  "int \<Rightarrow> int \<Rightarrow> int \<Rightarrow> world \<Rightarrow> (db_error + click_row option) \<times> world" where
  "word_click_handler x y page_num w =
     (case run_query (\<lambda>ws gs. fetchone (click_select (page_num, x, x, y, y) ws)) w of
        (Inl e, w') \<Rightarrow> (Inl e, w')
      | (Inr word, w') \<Rightarrow>
          (case word of Some r \<Rightarrow> (Inr (Some r), w') | None \<Rightarrow> (Inr None, w')))"

section \<open>explore\_database.py\<close>

text \<open>
  \<^verbatim>\<open>connect_db\<close> of this file catches the exception of \<^verbatim>\<open>sqlite3.connect\<close> and
  returns \<^verbatim>\<open>None\<close>.
\<close>

definition explore_connect_db :: "world \<Rightarrow> unit option \<times> world" where
  "explore_connect_db w =
     (case sqlite3_connect w of
        (Inl e, w1) \<Rightarrow> (None, w1)
      | (Inr conn, w1) \<Rightarrow> (Some conn, w1))"

text \<open>
  \<^verbatim>\<open>find_word_positions(cursor, arabic_word)\<close> runs the SELECT of
  \<^verbatim>\<open>find_word_occurrences\<close> on a cursor that its caller has opened, prints the rows and
  returns nothing; the value here is the list \<^verbatim>\<open>positions\<close> that it fetches.
\<close>

definition find_word_positions ::
  "string \<Rightarrow> world \<Rightarrow> (db_error + occurrence_row list) \<times> world" where
  "find_word_positions word w = execute_fetch (\<lambda>ws gs. occurrence_select word ws) w"

subsection \<open>main\<close>

text \<open>
  \<^verbatim>\<open>main\<close> opens one connection and runs every statement of the script on its cursor,
  inside \<^verbatim>\<open>try\<close> ... \<^verbatim>\<open>except Exception\<close> ... \<^verbatim>\<open>finally: conn.close()\<close>. The rows
  are printed only, so a statement is modelled by whether it raises. A readable store is
  taken to hold the two tables and no other.
\<close>

datatype py_exception = SqliteError db_error | TypeError

datatype exit_status = Returned | SysExit int

text \<open>A SELECT on the two tables whose rows are printed.\<close>

definition execute_print :: "world \<Rightarrow> (py_exception + unit) \<times> world" where
  "execute_print w =
     (case execute_fetch (\<lambda>ws gs. ()) w of
        (Inl e, w1) \<Rightarrow> (Inl (SqliteError e), w1)
      | (Inr _, w1) \<Rightarrow> (Inr (), w1))"

text \<open>
  The SELECT on \<^verbatim>\<open>sqlite_master\<close> and \<^verbatim>\<open>PRAGMA table_info\<close> need no table: they
  raise only when the file is not a database.
\<close>

definition execute_master :: "world \<Rightarrow> (py_exception + string list) \<times> world" where
  "execute_master w =
     (case store w of
        Db ws gs \<Rightarrow> (Inr [''word_bounds'', ''glyph_bounds''], log_event Executed w)
      | NoTables \<Rightarrow> (Inr [], log_event Executed w)
      | Corrupt \<Rightarrow> (Inl (SqliteError DatabaseError), log_event ExecuteFailed w)
      | CannotOpen \<Rightarrow> (Inl (SqliteError OperationalError), log_event ExecuteFailed w))"

definition execute_pragma :: "string \<Rightarrow> world \<Rightarrow> (py_exception + unit) \<times> world" where
  "execute_pragma table_name w =
     (case store w of
        Db ws gs \<Rightarrow> (Inr (), log_event Executed w)
      | NoTables \<Rightarrow> (Inr (), log_event Executed w)
      | Corrupt \<Rightarrow> (Inl (SqliteError DatabaseError), log_event ExecuteFailed w)
      | CannotOpen \<Rightarrow> (Inl (SqliteError OperationalError), log_event ExecuteFailed w))"

text \<open>Statements one after the other, up to the first that raises.\<close>

fun run_all ::
  "(world \<Rightarrow> (py_exception + unit) \<times> world) list \<Rightarrow> world \<Rightarrow> (py_exception + unit) \<times> world"
  where
  "run_all [] w = (Inr (), w)"
| "run_all (c # cs) w =
     (case c w of (Inl e, w1) \<Rightarrow> (Inl e, w1) | (Inr _, w1) \<Rightarrow> run_all cs w1)"

definition show_schema :: "world \<Rightarrow> (py_exception + unit) \<times> world" where
  "show_schema w =
     (case execute_master w of
        (Inl e, w1) \<Rightarrow> (Inl e, w1)
      | (Inr tables, w1) \<Rightarrow> run_all (map execute_pragma tables) w1)"

definition show_summary_stats :: "world \<Rightarrow> (py_exception + unit) \<times> world" where
  "show_summary_stats w =
     run_all [execute_print, execute_print, execute_print,
              execute_print, execute_print, execute_print] w"

definition show_sample_data :: "world \<Rightarrow> (py_exception + unit) \<times> world" where
  "show_sample_data w = execute_print w"

definition show_page_stats :: "int \<Rightarrow> world \<Rightarrow> (py_exception + unit) \<times> world" where
  "show_page_stats page_num w =
     run_all [execute_print, execute_print, execute_print, execute_print] w"

text \<open>
  \<^verbatim>\<open>first_word = cursor.fetchone()[0]\<close> after
  \<^verbatim>\<open>SELECT arabic_word FROM word_bounds LIMIT 1\<close>: on an empty table \<^verbatim>\<open>fetchone\<close> gives
  \<^verbatim>\<open>None\<close> and the subscript raises \<^verbatim>\<open>TypeError\<close>. The word found goes to
  \<^verbatim>\<open>find_word_positions\<close>.
\<close>

definition first_word_positions :: "world \<Rightarrow> (py_exception + unit) \<times> world" where
  "first_word_positions w =
     (case execute_fetch (\<lambda>ws gs. fetchone (map arabic_word ws)) w of
        (Inl e, w1) \<Rightarrow> (Inl (SqliteError e), w1)
      | (Inr None, w1) \<Rightarrow> (Inl TypeError, w1)
      | (Inr (Some first_word), w1) \<Rightarrow>
          (case find_word_positions first_word w1 of
             (Inl e, w2) \<Rightarrow> (Inl (SqliteError e), w2)
           | (Inr positions, w2) \<Rightarrow> (Inr (), w2)))"

text \<open>
  The exception of the \<^verbatim>\<open>try\<close> block is printed and dropped; \<^verbatim>\<open>main\<close> returns
  either way, after the \<^verbatim>\<open>finally\<close>.
\<close>

definition explore_main :: "world \<Rightarrow> exit_status \<times> world" where
  "explore_main w =
     (case explore_connect_db w of
        (None, w1) \<Rightarrow> (SysExit 1, w1)
      | (Some conn, w1) \<Rightarrow>
          (case run_all [show_schema, show_summary_stats, show_sample_data,
                         show_page_stats 2, first_word_positions] w1 of
             (_, w2) \<Rightarrow> (Returned, conn_close w2)))"

section \<open>Line summaries\<close>


section \<open>Sample stores\<close>

definition sample_words :: "word_bound list" where
  "sample_words =
     [\<lparr>page_number = 2, sura_number = 2, ayah_number = 2, word_position = 5,
       arabic_word = ''rayb'', min_x = 200, max_x = 300, min_y = 40, max_y = 60\<rparr>,
      \<lparr>page_number = 2, sura_number = 2, ayah_number = 2, word_position = 3,
       arabic_word = ''kitab'', min_x = 550, max_x = 650, min_y = 40, max_y = 60\<rparr>,
      \<lparr>page_number = 2, sura_number = 2, ayah_number = 1, word_position = 1,
       arabic_word = ''alm'', min_x = 100, max_x = 150, min_y = 10, max_y = 30\<rparr>,
      \<lparr>page_number = 3, sura_number = 2, ayah_number = 6, word_position = 2,
       arabic_word = ''kitab'', min_x = 100, max_x = 150, min_y = 10, max_y = 30\<rparr>,
      \<lparr>page_number = 2, sura_number = 2, ayah_number = 2, word_position = 1,
       arabic_word = ''dhalika'', min_x = 20, max_x = 80, min_y = 40, max_y = 60\<rparr>]"

definition sample_glyphs :: "glyph_bound list" where
  "sample_glyphs =
     [\<lparr>g_page_number = 2, g_line_number = 2, g_line_position = 1, g_line_type = ''ayah'',
       g_min_x = 200, g_max_x = 300, g_min_y = 40, g_max_y = 60\<rparr>,
      \<lparr>g_page_number = 2, g_line_number = 1, g_line_position = 1, g_line_type = ''sura'',
       g_min_x = 100, g_max_x = 150, g_min_y = 10, g_max_y = 30\<rparr>,
      \<lparr>g_page_number = 3, g_line_number = 1, g_line_position = 1, g_line_type = ''ayah'',
       g_min_x = 0, g_max_x = 900, g_min_y = 0, g_max_y = 900\<rparr>,
      \<lparr>g_page_number = 2, g_line_number = 2, g_line_position = 2, g_line_type = ''ayah'',
       g_min_x = 20, g_max_x = 80, g_min_y = 38, g_max_y = 62\<rparr>]"

definition sample_world :: world where
  "sample_world = \<lparr>store = Db sample_words sample_glyphs, events = []\<rparr>"



section \<open>Properties\<close>

subsection \<open>The frame of a query\<close>

lemma run_query_Db:
  "store w = Db ws gs \<Longrightarrow>
   run_query q w = (Inr (q ws gs), w\<lparr>events := events w @ [Opened, Executed, Closed]\<rparr>)"
  by (simp add: run_query_def connect_db_def sqlite3_connect_def execute_fetch_def
      conn_close_def log_event_def)

lemma run_query_unavailable:
  assumes "\<forall>ws gs. store w \<noteq> Db ws gs"
  shows "isl (fst (run_query q w))
       \<and> (events (snd (run_query q w)) = events w @ [OpenFailed]
          \<or> events (snd (run_query q w)) = events w @ [Opened, ExecuteFailed])"
  using assms
  by (cases "store w")
     (simp_all add: run_query_def connect_db_def sqlite3_connect_def execute_fetch_def
        log_event_def)

lemma run_query_store: "store (snd (run_query q w)) = store w"
  by (cases "store w")
     (simp_all add: run_query_def connect_db_def sqlite3_connect_def execute_fetch_def
        conn_close_def log_event_def)

text \<open>
  In the other script a connection that cannot be opened reaches the caller as
  \<^verbatim>\<open>None\<close>.
\<close>

lemma explore_connect_db_cannot_open:
  "store w = CannotOpen \<Longrightarrow> explore_connect_db w = (None, log_event OpenFailed w)"
  by (simp add: explore_connect_db_def sqlite3_connect_def)

text \<open>The last step of \<^verbatim>\<open>word_click_handler\<close> hands on what \<^verbatim>\<open>fetchone\<close> gave.\<close>

lemma word_click_handler_run_query:
  "word_click_handler x y p w
   = run_query (\<lambda>ws gs. fetchone (click_select (p, x, x, y, y) ws)) w"
  by (simp add: word_click_handler_def split: prod.splits sum.splits option.splits)

subsection \<open>The SELECT statements\<close>




lemma occurrence_select_sorted: "sorted (map occurrence_key (occurrence_select t ws))"
proof -
  have "occurrence_key \<circ> occurrence_row
        = (\<lambda>r. (page_number r, sura_number r, ayah_number r, word_position r))"
    by (simp add: fun_eq_iff occurrence_row_def occurrence_key_def)
  then show ?thesis
    unfolding occurrence_select_def by (simp only: map_map sorted_sort_key)
qed














subsection \<open>Words in a region\<close>



text \<open>
  C10. Called without a page, \<^verbatim>\<open>highlight_words_in_area\<close> does what it does for page 2:
  the same result and the same calls to the store.
\<close>

theorem highlight_words_in_area_default_page:
  "highlight_words_in_area x1 y1 x2 y2 Default w
   = highlight_words_in_area x1 y1 x2 y2 (Passed 2) w"
  by (simp add: highlight_words_in_area_def)

subsection \<open>Hit test\<close>



subsection \<open>Malformed boxes\<close>




subsection \<open>Unavailable store\<close>

text \<open>
  C4. When the store is not a readable database, each of the five lookups ends with the
  exception of the sqlite3 call that failed and with no rows. The store was approached
  once: either the connection failed, or it opened and the one SELECT failed. Nothing is
  tried again. \<^verbatim>\<open>find_word_positions\<close>, on the cursor it is given, ends with the
  exception of its one SELECT.
\<close>

theorem unavailable_store_fails:
  assumes "\<forall>ws gs. store w \<noteq> Db ws gs"
  shows "(let r = highlight_words_in_area x1 y1 x2 y2 pg w
         in isl (fst r)
            \<and> (events (snd r) = events w @ [OpenFailed]
               \<or> events (snd r) = events w @ [Opened, ExecuteFailed]))
     \<and> (let r = get_ayah_words s a w
         in isl (fst r)
            \<and> (events (snd r) = events w @ [OpenFailed]
               \<or> events (snd r) = events w @ [Opened, ExecuteFailed]))
     \<and> (let r = find_word_occurrences t w
         in isl (fst r)
            \<and> (events (snd r) = events w @ [OpenFailed]
               \<or> events (snd r) = events w @ [Opened, ExecuteFailed]))
     \<and> (let r = get_page_layout p w
         in isl (fst r)
            \<and> (events (snd r) = events w @ [OpenFailed]
               \<or> events (snd r) = events w @ [Opened, ExecuteFailed]))
     \<and> (let r = word_click_handler x y p w
         in isl (fst r)
            \<and> (events (snd r) = events w @ [OpenFailed]
               \<or> events (snd r) = events w @ [Opened, ExecuteFailed]))
     \<and> (let r = find_word_positions t w
         in isl (fst r) \<and> events (snd r) = events w @ [ExecuteFailed])"
proof -
  have cursor: "isl (fst (find_word_positions t w))
     \<and> events (snd (find_word_positions t w)) = events w @ [ExecuteFailed]"
    using assms
    by (cases "store w") (simp_all add: find_word_positions_def execute_fetch_def log_event_def)
  show ?thesis
    unfolding highlight_words_in_area_def get_ayah_words_def find_word_occurrences_def
      get_page_layout_def word_click_handler_run_query Let_def
    by (intro conjI cursor run_query_unavailable [OF assms])
qed

theorem unavailable_store_fails_witness:
  "get_ayah_words 2 1 \<lparr>store = Corrupt, events = []\<rparr>
     = (Inl DatabaseError, \<lparr>store = Corrupt, events = [Opened, ExecuteFailed]\<rparr>)
   \<and> word_click_handler 850 400 2 \<lparr>store = CannotOpen, events = []\<rparr>
     = (Inl OperationalError, \<lparr>store = CannotOpen, events = [OpenFailed]\<rparr>)"
  using unavailable_store_fails
          [of "\<lparr>store = Corrupt, events = []\<rparr>" 0 0 600 400 Default 2 1 "[]" 2 850 400]
        unavailable_store_fails
          [of "\<lparr>store = CannotOpen, events = []\<rparr>" 0 0 600 400 Default 2 1 "[]" 2 850 400]
  by (simp add: get_ayah_words_def word_click_handler_def run_query_def connect_db_def
      sqlite3_connect_def execute_fetch_def log_event_def)

subsection \<open>Page layout\<close>



subsection \<open>Occurrences of a word\<close>

text \<open>
  C6. On a readable store \<^verbatim>\<open>find_word_occurrences\<close> returns the selected columns of
  exactly the words whose \<^verbatim>\<open>arabic_word\<close> equals the text, ordered by page, sura, ayah
  and word position. A second call after the first returns the same list, and
  \<^verbatim>\<open>find_word_positions\<close> of the other script fetches the same list.
\<close>

theorem find_word_occurrences_exact:
  assumes "store w = Db ws gs"
  shows "\<exists>rows. fst (find_word_occurrences t w) = Inr rows
     \<and> mset rows = image_mset occurrence_row (filter_mset (\<lambda>r. arabic_word r = t) (mset ws))
     \<and> sorted (map occurrence_key rows)
     \<and> fst (find_word_occurrences t (snd (find_word_occurrences t w))) = Inr rows
     \<and> fst (find_word_positions t w) = Inr rows"
proof -
  let ?w' = "snd (find_word_occurrences t w)"
  have first: "fst (find_word_occurrences t w) = Inr (occurrence_select t ws)"
    using assms by (simp add: find_word_occurrences_def run_query_Db)
  have "store ?w' = Db ws gs"
    using assms by (simp add: find_word_occurrences_def run_query_store)
  then have second: "fst (find_word_occurrences t ?w') = Inr (occurrence_select t ws)"
    by (simp add: find_word_occurrences_def run_query_Db)
  have third: "fst (find_word_positions t w) = Inr (occurrence_select t ws)"
    using assms by (simp add: find_word_positions_def execute_fetch_def)
  have "mset (occurrence_select t ws)
        = image_mset occurrence_row (filter_mset (\<lambda>r. arabic_word r = t) (mset ws))"
    by (simp add: occurrence_select_def)
  then show ?thesis
    using first second third occurrence_select_sorted by blast
qed

theorem find_word_occurrences_exact_witness:
  "store sample_world = Db sample_words sample_glyphs
   \<and> fst (find_word_occurrences ''kitab'' sample_world)
       = Inr [(2, 2, 2, 3, 550, 650, 40, 60), (3, 2, 6, 2, 100, 150, 10, 30)]
   \<and> fst (find_word_occurrences ''kitab'' (snd (find_word_occurrences ''kitab'' sample_world)))
       = Inr [(2, 2, 2, 3, 550, 650, 40, 60), (3, 2, 6, 2, 100, 150, 10, 30)]"
  using find_word_occurrences_exact [of sample_world sample_words sample_glyphs "''kitab''"]
  by (simp add: sample_world_def sample_words_def find_word_occurrences_def run_query_Db
      occurrence_select_def occurrence_row_def)

subsection \<open>Words of an ayah\<close>



subsection \<open>The store is only read\<close>


subsection \<open>The connection on the error path\<close>

text \<open>
  \<^verbatim>\<open>main\<close> of explore\_database.py closes the connection it opened on every path,
  also when a statement of its \<^verbatim>\<open>try\<close> block raises.
\<close>

lemmas explore_defs =
  explore_main_def explore_connect_db_def sqlite3_connect_def show_schema_def
  show_summary_stats_def show_sample_data_def show_page_stats_def first_word_positions_def
  find_word_positions_def execute_print_def execute_master_def execute_pragma_def
  execute_fetch_def fetchone_def conn_close_def log_event_def

lemma explore_main_unreadable:
  "store w = CannotOpen \<Longrightarrow>
     explore_main w = (SysExit 1, w\<lparr>events := events w @ [OpenFailed]\<rparr>)"
  "store w = Corrupt \<Longrightarrow>
     explore_main w = (Returned, w\<lparr>events := events w @ [Opened, ExecuteFailed, Closed]\<rparr>)"
  "store w = NoTables \<Longrightarrow>
     explore_main w
     = (Returned, w\<lparr>events := events w @ [Opened, Executed, ExecuteFailed, Closed]\<rparr>)"
  by (simp_all add: explore_defs)

lemma explore_main_releases:
  "\<exists>es. events (snd (explore_main w)) = events w @ es \<and> open_handles es = 0"
proof (cases "store w")
  case CannotOpen
  then show ?thesis by (simp add: explore_main_unreadable open_handles_def)
next
  case NoTables
  then show ?thesis by (simp add: explore_main_unreadable open_handles_def)
next
  case Corrupt
  then show ?thesis by (simp add: explore_main_unreadable open_handles_def)
next
  case (Db ws gs)
  then show ?thesis
    by (cases ws) (simp_all add: explore_defs open_handles_def)
qed

text \<open>
  C9. The functions of example\_usage.py have no \<^verbatim>\<open>finally\<close>. When the SELECT
  raises, \<^verbatim>\<open>highlight_words_in_area\<close> is left before its \<^verbatim>\<open>conn.close()\<close>: on a
  store without the tables the call ends with the exception and with its connection open.
\<close>

theorem highlight_words_in_area_leaves_handle_open:
  "highlight_words_in_area 0 0 600 400 (Passed 2) \<lparr>store = NoTables, events = []\<rparr>
     = (Inl OperationalError, \<lparr>store = NoTables, events = [Opened, ExecuteFailed]\<rparr>)
   \<and> open_handles (events (snd (highlight_words_in_area 0 0 600 400 (Passed 2)
         \<lparr>store = NoTables, events = []\<rparr>))) = 1"
  by (simp add: highlight_words_in_area_def run_query_def connect_db_def
      sqlite3_connect_def execute_fetch_def log_event_def open_handles_def)


end
